theory Spec2Isabelle
  imports Main "HOL-Library.Sublist"
begin

section \<open>Python values shared by both modules\<close>

text \<open>
  A Python \<open>str\<close> is a \<open>string\<close>; one \<open>char\<close> stands for one character of the
  source string. Exceptions are values: \<open>ValueError\<close> is kept apart because
  \<open>list_artifacts\<close> has a handler of its own for it, every other subclass of
  \<open>Exception\<close> is \<open>OtherException\<close>. The argument is the text \<open>str(e)\<close> gives.
\<close>

datatype exn = ValueError string | OtherException string

fun str_exn :: "exn \<Rightarrow> string" where
  "str_exn (ValueError m) = m"
| "str_exn (OtherException m) = m"

text \<open>The result of awaiting a call of a service the repository does not implement.\<close>

datatype 'a outcome = Returned 'a | Raised exn

definition newline :: char where
  "newline = CHR 0x0A"

definition dquote :: char where
  "dquote = CHR 0x22"

definition backslash :: char where
  "backslash = CHR 0x5C"

text \<open>\<open>s.split(sep, 1)\<close>: at most one cut, at the first separator.\<close>

definition split1 :: "char \<Rightarrow> string \<Rightarrow> string list" where
  "split1 sep s =
     (if sep \<in> set s
      then [takeWhile (\<lambda>c. c \<noteq> sep) s, tl (dropWhile (\<lambda>c. c \<noteq> sep) s)]
      else [s])"

text \<open>\<open>s.rsplit(sep, 1)\<close>: at most one cut, at the last separator.\<close>

definition rsplit1 :: "char \<Rightarrow> string \<Rightarrow> string list" where
  "rsplit1 sep s =
     (if sep \<in> set s
      then [rev (tl (dropWhile (\<lambda>c. c \<noteq> sep) (rev s))), rev (takeWhile (\<lambda>c. c \<noteq> sep) (rev s))]
      else [s])"

text \<open>\<open>sep.join(xs)\<close>.\<close>

fun str_join :: "string \<Rightarrow> string list \<Rightarrow> string" where
  "str_join sep [] = []"
| "str_join sep [x] = x"
| "str_join sep (x # y # ys) = x @ sep @ str_join sep (y # ys)"

text \<open>\<open>s.split(sep)\<close> for a one-character separator: every separator cuts.\<close>

fun str_split :: "char \<Rightarrow> string \<Rightarrow> string list" where
  "str_split sep [] = [[]]"
| "str_split sep (c # cs) =
     (if c = sep then [] # str_split sep cs
      else (case str_split sep cs of
              [] \<Rightarrow> [[c]]
            | l # ls \<Rightarrow> (c # l) # ls))"

section \<open>video\_analysis\_agent/agent.py\<close>

subsection \<open>Artifacts and the tool context\<close>

record Blob =
  data :: string
  mime_type :: "string option"

text \<open>\<open>types.Part\<close>: of its optional fields the two that the repository sets or reads.\<close>

record Part =
  part_text :: "string option"
  inline_data :: "Blob option"

text \<open>
  The tool context of one session, backed by the in-memory artifact service that
  \<open>main.py\<close> hands to the runner: \<open>artifacts\<close> is the sequence of saves made
  through this context, oldest first. The version number that \<open>save_artifact\<close>
  returns is the number of earlier saves under the same filename.
\<close>

record ToolContext =
  artifacts :: "(string \<times> Part) list"

definition save_artifact :: "string \<Rightarrow> Part \<Rightarrow> ToolContext \<Rightarrow> nat \<times> ToolContext" where
  "save_artifact filename artifact tool_context =
     (length (filter (\<lambda>entry. fst entry = filename) (artifacts tool_context)),
      tool_context\<lparr>artifacts := artifacts tool_context @ [(filename, artifact)]\<rparr>)"

text \<open>
  The namespace of a saved artifact, as the comment beside the assignment of
  \<open>filename\<close> records it: a name with the prefix \<open>user:\<close> belongs to the user, any
  other name to the session.
\<close>

datatype scope = SessionScope | UserScope

definition artifact_scope :: "string \<Rightarrow> scope" where
  "artifact_scope filename = (if prefix ''user:'' filename then UserScope else SessionScope)"

subsection \<open>Tool \<open>add_artifact_from_gcs\<close>\<close>

text \<open>
  The blob store and the extension table of \<open>mimetypes\<close> lie outside the
  repository and are parameters: \<open>download bucket_name blob_name\<close> is the outcome of
  creating the client, the bucket and the blob handles and of \<open>download_as_bytes\<close>;
  \<open>guess_type filename\<close> is the first component of \<open>mimetypes.guess_type\<close>.
  The function returns \<open>None\<close>; an exception leaves through \<open>Inl\<close>.
\<close>

definition uri_filename :: "string \<Rightarrow> string" where
  "uri_filename uri = last (rsplit1 CHR ''/'' uri)"

definition add_artifact_from_gcs ::
  "(string \<Rightarrow> string \<Rightarrow> exn + string) \<Rightarrow> (string \<Rightarrow> string option) \<Rightarrow>
   string \<Rightarrow> ToolContext \<Rightarrow> (exn + unit) \<times> ToolContext" where
  "add_artifact_from_gcs download guess_type uri tool_context =
     (let path_part = drop (length ''gs://'') uri in
      case split1 CHR ''/'' path_part of
        [bucket_name, blob_name] \<Rightarrow>
          (case download bucket_name blob_name of
             Inl e \<Rightarrow> (Inl e, tool_context)
           | Inr file_bytes \<Rightarrow>
               (let filename = uri_filename uri;
                    guessed = guess_type filename;
                    mime = (if guessed = Some ''application/json'' then Some ''text/plain''
                            else guessed);
                    file_artifact = \<lparr>part_text = None,
                                     inline_data = Some \<lparr>data = file_bytes, mime_type = mime\<rparr>\<rparr>
                in (Inr (), snd (save_artifact filename file_artifact tool_context))))
      | _ \<Rightarrow> (Inl (ValueError ''not enough values to unpack (expected 2, got 1)''),
              tool_context))"

subsection \<open>Tool \<open>list_artifacts\<close>\<close>

text \<open>
  The argument is the outcome of \<open>await tool_context.list_artifacts()\<close>. The two
  handlers of the source are the two \<open>Raised\<close> cases.
\<close>

definition list_artifacts :: "string list outcome \<Rightarrow> exn + string" where
  "list_artifacts listing =
     (case listing of
        Returned available_files \<Rightarrow>
          (if available_files = [] then Inr ''You have no saved artifacts.''
           else Inr (''Here are your available Python artifacts:'' @ [newline] @
                     str_join [newline] (map (\<lambda>fname. ''- '' @ fname) available_files)))
      | Raised (ValueError e) \<Rightarrow> Inr ''Error: Could not list Python artifacts.''
      | Raised (OtherException e) \<Rightarrow>
          Inr ''Error: An unexpected error occurred while listing Python artifacts.'')"

subsection \<open>The BigQuery toolset configuration\<close>

text \<open>
  The write modes of the toolset library: \<open>BLOCKED\<close> permits no write,
  \<open>PROTECTED\<close> permits writes to session-scoped temporary tables only, \<open>ALLOWED\<close>
  permits every write.
\<close>

datatype WriteMode = BLOCKED | PROTECTED | ALLOWED

record BigQueryToolConfig =
  write_mode :: WriteMode

definition tool_config :: BigQueryToolConfig where
  "tool_config = \<lparr>write_mode = ALLOWED\<rparr>"

record BigQueryToolset =
  bigquery_tool_config :: BigQueryToolConfig

definition bigquery_toolset :: BigQueryToolset where
  "bigquery_toolset = \<lparr>bigquery_tool_config = tool_config\<rparr>"

section \<open>main.py\<close>

subsection \<open>Configuration and the event model\<close>

text \<open>
  The five settings come from \<open>os.environ.get\<close>, which gives \<open>None\<close> for a
  variable that is not set; an f-string prints \<open>None\<close> as the word \<open>None\<close>.
\<close>

record Config =
  PROJECT_ID :: "string option"
  LOCATION_ID :: "string option"
  QUEUE_ID :: "string option"
  SERVICE_URL :: "string option"
  SERVICE_EMAIL :: "string option"

definition fstr :: "string option \<Rightarrow> string" where
  "fstr v = (case v of None \<Rightarrow> ''None'' | Some s \<Rightarrow> s)"

record GcsEvent =
  bucket :: string
  name :: string

datatype json =
    JNull
  | JBool bool
  | JNumber int
  | JString string
  | JArray "json list"
  | JObject "(string \<times> json) list"

text \<open>
  What the web framework does with the declaration \<open>event: GcsEvent\<close> of both
  handlers: the parsed body must be an object whose fields \<open>bucket\<close> and \<open>name\<close>
  are strings (of a repeated key the last occurrence counts, other keys are
  ignored); otherwise there is no event and the handler is not called.
\<close>

definition json_field :: "json \<Rightarrow> string \<Rightarrow> json option" where
  "json_field request_body key =
     (case request_body of
        JObject members \<Rightarrow> map_of (rev members) key
      | _ \<Rightarrow> None)"

definition validate_GcsEvent :: "json \<Rightarrow> GcsEvent option" where
  "validate_GcsEvent request_body =
     (case (json_field request_body ''bucket'', json_field request_body ''name'') of
        (Some (JString b), Some (JString n)) \<Rightarrow> Some \<lparr>bucket = b, name = n\<rparr>
      | _ \<Rightarrow> None)"

text \<open>
  \<open>event.model_dump_json()\<close>: the compact JSON object of the two fields in
  declaration order. Inside a string literal the quote, the backslash and the
  control characters are escaped, every other character is written as it is.
\<close>

definition hex_digit :: "nat \<Rightarrow> char" where
  "hex_digit n = ''0123456789abcdef'' ! (n mod 16)"

definition json_escape_char :: "char \<Rightarrow> string" where
  "json_escape_char c =
     (if c = dquote then [backslash, dquote]
      else if c = backslash then [backslash, backslash]
      else if c = CHR 0x08 then [backslash, CHR ''b'']
      else if c = CHR 0x0C then [backslash, CHR ''f'']
      else if c = CHR 0x0A then [backslash, CHR ''n'']
      else if c = CHR 0x0D then [backslash, CHR ''r'']
      else if c = CHR 0x09 then [backslash, CHR ''t'']
      else if (of_char c :: nat) < 32
        then [backslash, CHR ''u'', CHR ''0'', CHR ''0'',
              hex_digit ((of_char c :: nat) div 16), hex_digit (of_char c :: nat)]
      else [c])"

definition json_string :: "string \<Rightarrow> string" where
  "json_string s = [dquote] @ concat (map json_escape_char s) @ [dquote]"

definition model_dump_json :: "GcsEvent \<Rightarrow> string" where
  "model_dump_json event =
     ''{'' @ json_string ''bucket'' @ '':'' @ json_string (bucket event) @ '','' @
     json_string ''name'' @ '':'' @ json_string (name event) @ ''}''"

subsection \<open>The queue task\<close>

datatype HttpMethod =
  HTTP_METHOD_UNSPECIFIED | POST | GET | HEAD | PUT | DELETE | PATCH | OPTIONS

record OidcToken =
  service_account_email :: string
  audience :: string

record HttpRequest =
  http_method :: HttpMethod
  url :: string
  oidc_token :: OidcToken
  headers :: "(string \<times> string) list"
  body :: string

record Task =
  http_request :: HttpRequest
  dispatch_deadline :: string

text \<open>The path template of the queue client's \<open>queue_path\<close>.\<close>

definition queue_path :: "string option \<Rightarrow> string option \<Rightarrow> string option \<Rightarrow> string" where
  "queue_path project location queue =
     ''projects/'' @ fstr project @ ''/locations/'' @ fstr location @ ''/queues/'' @ fstr queue"

text \<open>
  The dictionary \<open>task\<close> that \<open>gcs_trigger\<close> builds. \<open>event_str.encode()\<close> is the
  same sequence of characters as bytes.
\<close>

definition gcs_trigger_task :: "Config \<Rightarrow> GcsEvent \<Rightarrow> Task" where
  "gcs_trigger_task cfg event =
     (let event_str = model_dump_json event in
      \<lparr>http_request =
         \<lparr>http_method = POST,
          url = fstr (SERVICE_URL cfg) @ ''/process-asset'',
          oidc_token =
            \<lparr>service_account_email = fstr (SERVICE_EMAIL cfg),
             audience = fstr (SERVICE_URL cfg) @ ''/process-asset''\<rparr>,
          headers = [(''Content-type'', ''application/json'')],
          body = event_str\<rparr>,
       dispatch_deadline = ''1800s''\<rparr>)"

subsection \<open>Process state and responses\<close>

record Session =
  app_name :: string
  session_id :: string
  user_id :: string

text \<open>
  The state the two handlers act on: the tasks accepted by the queue, each with the
  queue path it was created under, and the sessions of the in-memory session
  service, both oldest first.
\<close>

record world =
  tasks :: "(string \<times> Task) list"
  sessions :: "Session list"

text \<open>
  What a request ends in: a plain \<open>Response\<close> with status and body; a dictionary
  that the framework renders as JSON with the given status; an \<open>HTTPException\<close>
  with status and detail; or the framework's refusal of a body that is no
  \<open>GcsEvent\<close>.
\<close>

datatype http_response =
    Response nat string
  | JSONResponse nat "(string \<times> string option) list"
  | HTTPException nat string
  | RequestValidationError

fun status_code :: "http_response \<Rightarrow> nat" where
  "status_code (Response s b) = s"
| "status_code (JSONResponse s d) = s"
| "status_code (HTTPException s d) = s"
| "status_code RequestValidationError = 422"

subsection \<open>Handler \<open>gcs_trigger\<close>\<close>

text \<open>
  The queue client is a parameter: \<open>create_task parent task\<close> is \<open>None\<close> when
  the call returns, and then the task is in the queue, or the exception it raises.
\<close>

definition gcs_trigger ::
  "Config \<Rightarrow> (string \<Rightarrow> Task \<Rightarrow> exn option) \<Rightarrow> GcsEvent \<Rightarrow> world \<Rightarrow> http_response \<times> world" where
  "gcs_trigger cfg create_task event w =
     (let parent = queue_path (PROJECT_ID cfg) (LOCATION_ID cfg) (QUEUE_ID cfg);
          task = gcs_trigger_task cfg event
      in case create_task parent task of
           None \<Rightarrow> (Response 204 [], w\<lparr>tasks := tasks w @ [(parent, task)]\<rparr>)
         | Some e \<Rightarrow> (HTTPException 500 (''Failed to create task: '' @ str_exn e), w))"

subsection \<open>Handler \<open>process_asset\<close>\<close>

record Content =
  role :: string
  parts :: "Part list option"

record EventActions =
  escalate :: "bool option"

text \<open>
  An event of the runner. \<open>is_final_response\<close> is the value of the method of that
  name, which the runner's library computes.
\<close>

record Event =
  is_final_response :: bool
  content :: "Content option"
  actions :: "EventActions option"
  error_message :: "string option"

text \<open>One step of the asynchronous iteration: an event, or an exception out of the generator.\<close>

datatype stream_item = Yield Event | Throw exn

text \<open>
  \<open>create_session\<close> of the in-memory session service: it refuses an identifier
  under which the application and user already have a session, and stores the new
  session otherwise.
\<close>

definition create_session :: "string \<Rightarrow> string \<Rightarrow> string \<Rightarrow> world \<Rightarrow> exn + world" where
  "create_session app sid uid w =
     (let session = \<lparr>app_name = app, session_id = sid, user_id = uid\<rparr>
      in if session \<in> set (sessions w)
         then Inl (OtherException (''Session with id '' @ sid @ '' already exists.''))
         else Inr (w\<lparr>sessions := sessions w @ [session]\<rparr>))"

text \<open>
  The body of the \<open>if event.is_final_response()\<close> branch: the new value of
  \<open>final_response_text\<close>. A content with a first part gives that part's text
  (which may be \<open>None\<close>); otherwise an escalation gives the synthesized message,
  with the default for a missing or empty error message; otherwise the value
  stays.
\<close>

definition final_text :: "Event \<Rightarrow> string option \<Rightarrow> string option" where
  "final_text event final_response_text =
     (case (case content event of None \<Rightarrow> None | Some c \<Rightarrow> parts c) of
        Some (p # ps) \<Rightarrow> part_text p
      | _ \<Rightarrow>
          (if (case actions event of None \<Rightarrow> False | Some a \<Rightarrow> escalate a = Some True)
           then Some (''Agent escalated: '' @
                      (case error_message event of
                         None \<Rightarrow> ''No specific message.''
                       | Some m \<Rightarrow> if m = [] then ''No specific message.'' else m))
           else final_response_text))"

text \<open>The two conditions of that branch, as predicates of the event.\<close>

definition has_parts :: "Event \<Rightarrow> bool" where
  "has_parts event =
     (case content event of
        None \<Rightarrow> False
      | Some c \<Rightarrow> (case parts c of Some (p # ps) \<Rightarrow> True | _ \<Rightarrow> False))"

definition escalated :: "Event \<Rightarrow> bool" where
  "escalated event = (case actions event of None \<Rightarrow> False | Some a \<Rightarrow> escalate a = Some True)"

text \<open>The \<open>async for\<close> loop with its \<open>break\<close> at the first final response.\<close>

fun consume :: "stream_item list \<Rightarrow> string option \<Rightarrow> exn + string option" where
  "consume [] final_response_text = Inr final_response_text"
| "consume (Throw e # rest) final_response_text = Inl e"
| "consume (Yield event # rest) final_response_text =
     (if is_final_response event then Inr (final_text event final_response_text)
      else consume rest final_response_text)"

text \<open>
  The runner and the identifier generator are parameters: \<open>run_async user_id
  session_id new_message\<close> is the stream the runner produces, \<open>uuid4\<close> the string
  of the identifier drawn in this invocation. Everything from the creation of the
  session on is inside the \<open>try\<close>: an exception of the session service, like one
  of the runner, ends in the 500 of the handler.
\<close>

definition new_message :: "string \<Rightarrow> Content" where
  "new_message event_str =
     \<lparr>role = ''user'', parts = Some [\<lparr>part_text = Some event_str, inline_data = None\<rparr>]\<rparr>"

definition process_asset ::
  "(string \<Rightarrow> string \<Rightarrow> Content \<Rightarrow> stream_item list) \<Rightarrow> string \<Rightarrow> GcsEvent \<Rightarrow> world \<Rightarrow>
   http_response \<times> world" where
  "process_asset run_async uuid4 event w =
     (let event_str = model_dump_json event;
          sid = uuid4;
          uid = ''gcs_trigger_user''
      in case create_session ''video_analysis_agent'' sid uid w of
           Inl e \<Rightarrow> (HTTPException 500 (str_exn e), w)
         | Inr w' \<Rightarrow>
             (case consume (run_async uid sid (new_message event_str))
                     (Some ''Agent did not produce a final response.'') of
                Inr final_response_text \<Rightarrow>
                  (JSONResponse 200
                     [(''status'', Some ''success''), (''response'', final_response_text)],
                   w')
              | Inl e \<Rightarrow> (HTTPException 500 (str_exn e), w')))"

text \<open>The session that \<open>process_asset\<close> asks for when it has drawn the identifier \<open>sid\<close>.\<close>

definition trigger_session :: "string \<Rightarrow> Session" where
  "trigger_session sid =
     \<lparr>app_name = ''video_analysis_agent'', session_id = sid, user_id = ''gcs_trigger_user''\<rparr>"


subsection \<open>The two routes\<close>

definition post_gcs_trigger ::
  "Config \<Rightarrow> (string \<Rightarrow> Task \<Rightarrow> exn option) \<Rightarrow> json \<Rightarrow> world \<Rightarrow> http_response \<times> world" where
  "post_gcs_trigger cfg create_task request_body w =
     (case validate_GcsEvent request_body of
        None \<Rightarrow> (RequestValidationError, w)
      | Some event \<Rightarrow> gcs_trigger cfg create_task event w)"

definition post_process_asset ::
  "(string \<Rightarrow> string \<Rightarrow> Content \<Rightarrow> stream_item list) \<Rightarrow> string \<Rightarrow> json \<Rightarrow> world \<Rightarrow>
   http_response \<times> world" where
  "post_process_asset run_async uuid4 request_body w =
     (case validate_GcsEvent request_body of
        None \<Rightarrow> (RequestValidationError, w)
      | Some event \<Rightarrow> process_asset run_async uuid4 event w)"

section \<open>Concrete parameters for evaluation\<close>

text \<open>
  A blob store that holds two objects and fails for every other name, and a
  fragment of the extension table.
\<close>

definition sample_download :: "string \<Rightarrow> string \<Rightarrow> exn + string" where
  "sample_download bucket_name blob_name =
     (if bucket_name = ''b'' \<and> blob_name = ''dir/name.pdf'' then Inr ''%PDF''
      else if bucket_name = ''b'' \<and> blob_name = ''meta/info.json'' then Inr ''{}''
      else Inl (OtherException ''NotFound''))"

definition sample_guess_type :: "string \<Rightarrow> string option" where
  "sample_guess_type filename =
     (if suffix ''.json'' filename then Some ''application/json''
      else if suffix ''.pdf'' filename then Some ''application/pdf''
      else None)"

text \<open>
  A configuration, an event, a queue client that accepts every task and one that
  is unavailable, and an empty process state.
\<close>

definition sample_config :: Config where
  "sample_config =
     \<lparr>PROJECT_ID = Some ''p'', LOCATION_ID = Some ''us-central1'', QUEUE_ID = Some ''q'',
      SERVICE_URL = Some ''https://svc.example'', SERVICE_EMAIL = Some ''sa@p.example''\<rparr>"

definition sample_event :: GcsEvent where
  "sample_event = \<lparr>bucket = ''b1'', name = ''video.mp4''\<rparr>"

definition queue_accepts :: "string \<Rightarrow> Task \<Rightarrow> exn option" where
  "queue_accepts parent task = None"

definition queue_unavailable :: "string \<Rightarrow> Task \<Rightarrow> exn option" where
  "queue_unavailable parent task = Some (OtherException ''503 unavailable'')"

definition empty_world :: world where
  "empty_world = \<lparr>tasks = [], sessions = []\<rparr>"

text \<open>
  Events and runners: an event that is not final, a final event with neither
  content nor escalation, a final event that escalates with an error message; a
  runner whose stream ends after one event that is not final, one that ends in the
  bare final event, and one that ends in the escalation.
\<close>

definition progress_event :: Event where
  "progress_event =
     \<lparr>is_final_response = False,
      content = Some \<lparr>role = ''model'', parts = Some [\<lparr>part_text = Some ''working'', inline_data = None\<rparr>]\<rparr>,
      actions = None, error_message = None\<rparr>"

definition bare_final_event :: Event where
  "bare_final_event =
     \<lparr>is_final_response = True, content = None, actions = None, error_message = None\<rparr>"

definition escalation_event :: Event where
  "escalation_event =
     \<lparr>is_final_response = True, content = None,
      actions = Some \<lparr>escalate = Some True\<rparr>, error_message = Some ''quota exceeded''\<rparr>"

definition runner_without_final :: "string \<Rightarrow> string \<Rightarrow> Content \<Rightarrow> stream_item list" where
  "runner_without_final uid sid message = [Yield progress_event]"

definition runner_bare_final :: "string \<Rightarrow> string \<Rightarrow> Content \<Rightarrow> stream_item list" where
  "runner_bare_final uid sid message = [Yield progress_event, Yield bare_final_event]"

definition runner_escalating :: "string \<Rightarrow> string \<Rightarrow> Content \<Rightarrow> stream_item list" where
  "runner_escalating uid sid message = [Yield progress_event, Yield escalation_event]"

text \<open>The content types of the artifacts saved through a tool context.\<close>

definition stored_mime_types :: "ToolContext \<Rightarrow> string option list" where
  "stored_mime_types tool_context =
     map (\<lambda>entry. case inline_data (snd entry) of None \<Rightarrow> None | Some blob \<Rightarrow> mime_type blob)
       (artifacts tool_context)"

section \<open>Facts about the string operations\<close>


lemma split1_no_sep: "sep \<notin> set s \<Longrightarrow> split1 sep s = [s]"
  by (simp add: split1_def)

lemma takeWhile_upto_sep:
  "sep \<notin> set a \<Longrightarrow> takeWhile (\<lambda>c. c \<noteq> sep) (a @ sep # b) = a"
  by (induction a) auto

lemma dropWhile_upto_sep:
  "sep \<notin> set a \<Longrightarrow> dropWhile (\<lambda>c. c \<noteq> sep) (a @ sep # b) = sep # b"
  by (induction a) auto

lemma split1_cut: "sep \<notin> set a \<Longrightarrow> split1 sep (a @ sep # b) = [a, b]"
  by (simp add: split1_def takeWhile_upto_sep dropWhile_upto_sep)

lemma rsplit1_last_cut: "sep \<notin> set b \<Longrightarrow> last (rsplit1 sep (a @ sep # b)) = b"
  by (simp add: rsplit1_def takeWhile_upto_sep)

lemma rsplit1_last_suffix:
  assumes "sep \<in> set t"
  shows "last (rsplit1 sep (p @ t)) = last (rsplit1 sep t)"
proof -
  have "sep \<in> set (rev t)" using assms by simp
  then have "takeWhile (\<lambda>c. c \<noteq> sep) (rev t @ rev p) = takeWhile (\<lambda>c. c \<noteq> sep) (rev t)"
    by (metis (mono_tags, lifting) takeWhile_append1)
  then show ?thesis using assms by (simp add: rsplit1_def)
qed

lemma split1_shape:
  "sep \<in> set s \<Longrightarrow> \<exists>a b. split1 sep s = [a, b] \<and> s = a @ sep # b \<and> sep \<notin> set a"
proof -
  assume h: "sep \<in> set s"
  let ?a = "takeWhile (\<lambda>c. c \<noteq> sep) s" and ?d = "dropWhile (\<lambda>c. c \<noteq> sep) s"
  have d: "?d \<noteq> []" using h by (simp add: dropWhile_eq_Nil_conv) 
  then have "hd ?d = sep" using hd_dropWhile[of "\<lambda>c. c \<noteq> sep" s] by simp
  with d have "?d = sep # tl ?d" by (cases ?d) auto
  then have "s = ?a @ sep # tl ?d" by (metis takeWhile_dropWhile_id)
  moreover have "sep \<notin> set ?a" by (auto dest: set_takeWhileD)
  ultimately show ?thesis using h by (auto simp: split1_def)
qed

lemma str_split_no_sep: "sep \<notin> set a \<Longrightarrow> str_split sep a = [a]"
  by (induction a) auto

lemma str_split_cut: "sep \<notin> set a \<Longrightarrow> str_split sep (a @ sep # b) = a # str_split sep b"
  by (induction a) auto

lemma str_split_join:
  "xs \<noteq> [] \<Longrightarrow> \<forall>x\<in>set xs. sep \<notin> set x \<Longrightarrow> str_split sep (str_join [sep] xs) = xs"
proof (induction "[sep]" xs rule: str_join.induct)
  case 1 then show ?case by simp
next
  case (2 x) then show ?case by (simp add: str_split_no_sep)
next
  case (3 x y ys)
  then show ?case by (simp add: str_split_cut)
qed


lemma cut_first:
  assumes "sep \<in> set s"
  shows "s = takeWhile (\<lambda>c. c \<noteq> sep) s @ sep # tl (dropWhile (\<lambda>c. c \<noteq> sep) s)"
proof -
  let ?d = "dropWhile (\<lambda>c. c \<noteq> sep) s"
  have d: "?d \<noteq> []" using assms by (simp add: dropWhile_eq_Nil_conv)
  then have "hd ?d = sep" using hd_dropWhile[of "\<lambda>c. c \<noteq> sep" s] by simp
  with d have "?d = sep # tl ?d" by (cases ?d) auto
  then show ?thesis by (metis takeWhile_dropWhile_id)
qed

lemma rsplit1_last_shape:
  assumes "sep \<in> set s"
  shows "\<exists>a. s = a @ sep # last (rsplit1 sep s)" and "sep \<notin> set (last (rsplit1 sep s))"
proof -
  have "sep \<in> set (rev s)" using assms by simp
  from cut_first[OF this]
  have "rev (rev s) = rev (takeWhile (\<lambda>c. c \<noteq> sep) (rev s) @ sep # tl (dropWhile (\<lambda>c. c \<noteq> sep) (rev s)))"
    by simp
  then have "s = rev (tl (dropWhile (\<lambda>c. c \<noteq> sep) (rev s))) @ sep # rev (takeWhile (\<lambda>c. c \<noteq> sep) (rev s))"
    by simp
  then show "\<exists>a. s = a @ sep # last (rsplit1 sep s)"
    using assms by (auto simp: rsplit1_def)
  show "sep \<notin> set (last (rsplit1 sep s))"
    using assms by (auto simp: rsplit1_def dest: set_takeWhileD)
qed

lemma scheme_length: "length ''gs://'' = 5"
  by simp

lemma add_artifact_unpack:
  "CHR ''/'' \<notin> set (drop 5 uri) \<Longrightarrow>
   add_artifact_from_gcs download guess_type uri tc =
     (Inl (ValueError ''not enough values to unpack (expected 2, got 1)''), tc)"
  unfolding add_artifact_from_gcs_def scheme_length by (simp add: split1_no_sep)

lemma add_artifact_cut:
  assumes "drop 5 uri = b @ CHR ''/'' # p" and "CHR ''/'' \<notin> set b"
  shows "add_artifact_from_gcs download guess_type uri tc =
     (case download b p of
        Inl e \<Rightarrow> (Inl e, tc)
      | Inr file_bytes \<Rightarrow>
          (Inr (),
           tc\<lparr>artifacts := artifacts tc @
              [(uri_filename uri,
                \<lparr>part_text = None,
                 inline_data = Some \<lparr>data = file_bytes,
                    mime_type = (if guess_type (uri_filename uri) = Some ''application/json''
                                 then Some ''text/plain'' else guess_type (uri_filename uri))\<rparr>\<rparr>)]\<rparr>))"
  using assms unfolding add_artifact_from_gcs_def scheme_length
  by (simp add: split1_cut save_artifact_def Let_def split: sum.splits)

lemma add_artifact_saved:
  assumes "add_artifact_from_gcs download guess_type uri tc = (Inr (), tc')"
  shows "\<exists>file_bytes. artifacts tc' = artifacts tc @
           [(uri_filename uri,
             \<lparr>part_text = None,
              inline_data = Some \<lparr>data = file_bytes,
                 mime_type = (if guess_type (uri_filename uri) = Some ''application/json''
                              then Some ''text/plain'' else guess_type (uri_filename uri))\<rparr>\<rparr>)]"
proof (cases "CHR ''/'' \<in> set (drop 5 uri)")
  case False
  then show ?thesis using assms add_artifact_unpack[of uri download guess_type tc] by simp
next
  case True
  then obtain b p where cut: "drop 5 uri = b @ CHR ''/'' # p" and b: "CHR ''/'' \<notin> set b"
    using split1_shape by blast
  show ?thesis
    using assms unfolding add_artifact_cut[OF cut b] by (auto split: sum.splits)
qed

lemma add_artifact_failed:
  assumes "add_artifact_from_gcs download guess_type uri tc = (Inl e, tc')"
  shows "tc' = tc"
proof (cases "CHR ''/'' \<in> set (drop 5 uri)")
  case False
  then show ?thesis using assms add_artifact_unpack[of uri download guess_type tc] by simp
next
  case True
  then obtain b p where cut: "drop 5 uri = b @ CHR ''/'' # p" and b: "CHR ''/'' \<notin> set b"
    using split1_shape by blast
  show ?thesis
    using assms unfolding add_artifact_cut[OF cut b] by (auto split: sum.splits)
qed

lemma header_no_newline: "newline \<notin> set ''Here are your available Python artifacts:''"
  by (simp add: newline_def)

section \<open>The artifact store adapter\<close>

text \<open>
  Claim C2, as the specification states it: a uri that does not start with
  \<open>gs://\<close>, or whose remainder has no \<open>/\<close>, makes the adapter fail with
  \<open>InvalidUriError\<close>, and nothing is saved. The adapter does not look at the
  scheme: for \<open>s3://b/dir/name.pdf\<close> it reads object \<open>dir/name.pdf\<close> of bucket
  \<open>b\<close> and saves it as \<open>name.pdf\<close>.
\<close>

theorem add_artifact_from_gcs_prefix_unchecked_counterexample:
  "\<not> prefix ''gs://'' ''s3://b/dir/name.pdf'' \<and>
   add_artifact_from_gcs sample_download sample_guess_type ''s3://b/dir/name.pdf'' \<lparr>artifacts = []\<rparr> =
     (Inr (), \<lparr>artifacts = [(''name.pdf'',
        \<lparr>part_text = None,
         inline_data = Some \<lparr>data = ''%PDF'', mime_type = Some ''application/pdf''\<rparr>\<rparr>)]\<rparr>)"
  by (simp add: add_artifact_from_gcs_def split1_def uri_filename_def rsplit1_def
      sample_download_def sample_guess_type_def save_artifact_def suffix_def)

text \<open>
  Claim C2, amended: the adapter drops the first five characters of the uri
  whatever they are. When the remainder has no \<open>/\<close>, unpacking the result of
  \<open>split\<close> raises \<open>ValueError\<close> before the blob store is consulted, and the tool
  context is left as it was. When the remainder has a \<open>/\<close>, the adapter does
  exactly what it does for \<open>gs://\<close> followed by that remainder.
\<close>

theorem add_artifact_from_gcs_malformed_uri:
  "(CHR ''/'' \<notin> set (drop 5 uri) \<longrightarrow>
      add_artifact_from_gcs download guess_type uri tc =
        (Inl (ValueError ''not enough values to unpack (expected 2, got 1)''), tc)) \<and>
   (CHR ''/'' \<in> set (drop 5 uri) \<longrightarrow>
      add_artifact_from_gcs download guess_type uri tc =
        add_artifact_from_gcs download guess_type (''gs://'' @ drop 5 uri) tc)"
proof (intro conjI impI)
  assume "CHR ''/'' \<notin> set (drop 5 uri)"
  then show "add_artifact_from_gcs download guess_type uri tc =
        (Inl (ValueError ''not enough values to unpack (expected 2, got 1)''), tc)"
    by (rule add_artifact_unpack)
next
  assume h: "CHR ''/'' \<in> set (drop 5 uri)"
  have "uri = take 5 uri @ drop 5 uri" by simp
  then have "uri_filename uri = last (rsplit1 CHR ''/'' (take 5 uri @ drop 5 uri))"
    by (simp add: uri_filename_def)
  also have "\<dots> = last (rsplit1 CHR ''/'' (drop 5 uri))"
    using h by (rule rsplit1_last_suffix)
  also have "\<dots> = uri_filename (''gs://'' @ drop 5 uri)"
    unfolding uri_filename_def using h by (rule rsplit1_last_suffix[symmetric])
  finally have fn: "uri_filename uri = uri_filename (''gs://'' @ drop 5 uri)" .
  obtain b p where cut: "drop 5 uri = b @ CHR ''/'' # p" and b: "CHR ''/'' \<notin> set b"
    using split1_shape[OF h] by blast
  have cut': "drop 5 (''gs://'' @ drop 5 uri) = b @ CHR ''/'' # p"
    using cut by simp
  show "add_artifact_from_gcs download guess_type uri tc =
        add_artifact_from_gcs download guess_type (''gs://'' @ drop 5 uri) tc"
    unfolding add_artifact_cut[OF cut b] add_artifact_cut[OF cut' b] fn ..
qed

theorem add_artifact_from_gcs_malformed_uri_witness:
  "add_artifact_from_gcs sample_download sample_guess_type ''gs://bucket'' \<lparr>artifacts = []\<rparr> =
     (Inl (ValueError ''not enough values to unpack (expected 2, got 1)''), \<lparr>artifacts = []\<rparr>) \<and>
   add_artifact_from_gcs sample_download sample_guess_type ''s3://b/dir/name.pdf'' \<lparr>artifacts = []\<rparr> =
     add_artifact_from_gcs sample_download sample_guess_type ''gs://b/dir/name.pdf'' \<lparr>artifacts = []\<rparr>"
  using add_artifact_from_gcs_malformed_uri [of "''gs://bucket''" sample_download sample_guess_type "\<lparr>artifacts = []\<rparr>"]
    add_artifact_from_gcs_malformed_uri [of "''s3://b/dir/name.pdf''" sample_download sample_guess_type "\<lparr>artifacts = []\<rparr>"]
  by simp

text \<open>
  Claim C5: when the content type inferred from the final path segment is
  \<open>application/json\<close>, the artifact that a successful call saves has content type
  \<open>text/plain\<close>; so it is for every uri whose final segment ends in \<open>.json\<close>,
  under any extension table that maps such names to \<open>application/json\<close>; and no
  call adds an artifact of content type \<open>application/json\<close> to a tool context
  that held none.
\<close>

theorem json_artifact_saved_as_text_plain:
  assumes "add_artifact_from_gcs download guess_type uri tc = (res, tc')"
  shows "(res = Inr () \<and> guess_type (uri_filename uri) = Some ''application/json'' \<longrightarrow>
            (\<exists>file_bytes. artifacts tc' = artifacts tc @
               [(uri_filename uri,
                 \<lparr>part_text = None,
                  inline_data = Some \<lparr>data = file_bytes, mime_type = Some ''text/plain''\<rparr>\<rparr>)])) \<and>
         (res = Inr () \<and> suffix ''.json'' (uri_filename uri) \<and>
          (\<forall>filename. suffix ''.json'' filename \<longrightarrow>
             guess_type filename = Some ''application/json'') \<longrightarrow>
            (\<exists>file_bytes. artifacts tc' = artifacts tc @
               [(uri_filename uri,
                 \<lparr>part_text = None,
                  inline_data = Some \<lparr>data = file_bytes, mime_type = Some ''text/plain''\<rparr>\<rparr>)])) \<and>
         (Some ''application/json'' \<notin> set (stored_mime_types tc) \<longrightarrow>
            Some ''application/json'' \<notin> set (stored_mime_types tc'))"
proof (cases res)
  case (Inl e)
  then have "tc' = tc" using assms add_artifact_failed by blast
  with Inl show ?thesis by simp
next
  case (Inr u)
  then have "add_artifact_from_gcs download guess_type uri tc = (Inr (), tc')"
    using assms by simp
  from add_artifact_saved[OF this] obtain file_bytes m where
    saved: "artifacts tc' = artifacts tc @
       [(uri_filename uri, \<lparr>part_text = None, inline_data = Some \<lparr>data = file_bytes, mime_type = m\<rparr>\<rparr>)]"
    and m: "m = (if guess_type (uri_filename uri) = Some ''application/json''
                 then Some ''text/plain'' else guess_type (uri_filename uri))"
    by blast
  have not_json: "m \<noteq> Some ''application/json''"
    unfolding m by simp
  have types: "stored_mime_types tc' = stored_mime_types tc @ [m]"
    using saved by (simp add: stored_mime_types_def)
  have direct: "guess_type (uri_filename uri) = Some ''application/json'' \<Longrightarrow> m = Some ''text/plain''"
    unfolding m by simp
  then have by_suffix: "suffix ''.json'' (uri_filename uri) \<and>
      (\<forall>filename. suffix ''.json'' filename \<longrightarrow> guess_type filename = Some ''application/json'')
      \<Longrightarrow> m = Some ''text/plain''"
    by blast
  from saved not_json types direct by_suffix show ?thesis by auto
qed

theorem json_artifact_saved_as_text_plain_witness:
  "add_artifact_from_gcs sample_download sample_guess_type ''gs://b/meta/info.json'' \<lparr>artifacts = []\<rparr> =
     (Inr (), \<lparr>artifacts = [(''info.json'',
        \<lparr>part_text = None,
         inline_data = Some \<lparr>data = ''{}'', mime_type = Some ''text/plain''\<rparr>\<rparr>)]\<rparr>) \<and>
   sample_guess_type (uri_filename ''gs://b/meta/info.json'') = Some ''application/json'' \<and>
   Some ''application/json'' \<notin> set (stored_mime_types \<lparr>artifacts = []\<rparr>) \<and>
   Some ''application/json'' \<notin> set (stored_mime_types
      (snd (add_artifact_from_gcs sample_download sample_guess_type ''gs://b/meta/info.json''
              \<lparr>artifacts = []\<rparr>)))"
proof -
  have run: "add_artifact_from_gcs sample_download sample_guess_type ''gs://b/meta/info.json'' \<lparr>artifacts = []\<rparr> =
     (Inr (), \<lparr>artifacts = [(''info.json'',
        \<lparr>part_text = None,
         inline_data = Some \<lparr>data = ''{}'', mime_type = Some ''text/plain''\<rparr>\<rparr>)]\<rparr>)"
    by (simp add: add_artifact_from_gcs_def split1_def uri_filename_def rsplit1_def
      sample_download_def sample_guess_type_def save_artifact_def suffix_def)
  have g: "sample_guess_type (uri_filename ''gs://b/meta/info.json'') = Some ''application/json''"
    by (simp add: uri_filename_def rsplit1_def sample_guess_type_def suffix_def)
  have e: "Some ''application/json'' \<notin> set (stored_mime_types \<lparr>artifacts = []\<rparr>)"
    by (simp add: stored_mime_types_def)
  from json_artifact_saved_as_text_plain[OF run] g e run show ?thesis by simp
qed

text \<open>
  Claim C6: for \<open>gs://b/dir/name.pdf\<close> the adapter asks the blob store for object
  \<open>dir/name.pdf\<close> of bucket \<open>b\<close> and saves what it gets under \<open>name.pdf\<close>, a name
  of the session namespace. For every uri \<open>gs://bucket/path\<close> whose bucket
  has no \<open>/\<close> it asks for object \<open>path\<close> of that bucket and saves under the final
  segment of the path, which is in the session namespace unless the segment itself
  starts with \<open>user:\<close>.
\<close>

theorem gcs_uri_decomposition:
  "add_artifact_from_gcs download guess_type ''gs://b/dir/name.pdf'' tc =
     (case download ''b'' ''dir/name.pdf'' of
        Inl e \<Rightarrow> (Inl e, tc)
      | Inr file_bytes \<Rightarrow>
          (Inr (),
           tc\<lparr>artifacts := artifacts tc @
              [(''name.pdf'',
                \<lparr>part_text = None,
                 inline_data = Some \<lparr>data = file_bytes,
                    mime_type = (if guess_type ''name.pdf'' = Some ''application/json''
                                 then Some ''text/plain'' else guess_type ''name.pdf'')\<rparr>\<rparr>)]\<rparr>)) \<and>
   artifact_scope ''name.pdf'' = SessionScope \<and>
   (\<forall>bucket_name blob_name. CHR ''/'' \<notin> set bucket_name \<longrightarrow>
      (\<exists>filename.
         (blob_name = filename \<or> (\<exists>dir. blob_name = dir @ ''/'' @ filename)) \<and>
         CHR ''/'' \<notin> set filename \<and>
         (\<not> prefix ''user:'' filename \<longrightarrow> artifact_scope filename = SessionScope) \<and>
         add_artifact_from_gcs download guess_type (''gs://'' @ bucket_name @ ''/'' @ blob_name) tc =
           (case download bucket_name blob_name of
              Inl e \<Rightarrow> (Inl e, tc)
            | Inr file_bytes \<Rightarrow>
                (Inr (),
                 tc\<lparr>artifacts := artifacts tc @
                    [(filename,
                      \<lparr>part_text = None,
                       inline_data = Some \<lparr>data = file_bytes,
                          mime_type = (if guess_type filename = Some ''application/json''
                                       then Some ''text/plain'' else guess_type filename)\<rparr>\<rparr>)]\<rparr>))))"
proof -
  have general: "\<exists>filename.
         (blob_name = filename \<or> (\<exists>dir. blob_name = dir @ ''/'' @ filename)) \<and>
         CHR ''/'' \<notin> set filename \<and>
         (\<not> prefix ''user:'' filename \<longrightarrow> artifact_scope filename = SessionScope) \<and>
         add_artifact_from_gcs download guess_type (''gs://'' @ bucket_name @ ''/'' @ blob_name) tc =
           (case download bucket_name blob_name of
              Inl e \<Rightarrow> (Inl e, tc)
            | Inr file_bytes \<Rightarrow>
                (Inr (),
                 tc\<lparr>artifacts := artifacts tc @
                    [(filename,
                      \<lparr>part_text = None,
                       inline_data = Some \<lparr>data = file_bytes,
                          mime_type = (if guess_type filename = Some ''application/json''
                                       then Some ''text/plain'' else guess_type filename)\<rparr>\<rparr>)]\<rparr>))"
    if b: "CHR ''/'' \<notin> set bucket_name" for bucket_name blob_name
  proof -
    let ?uri = "''gs://'' @ bucket_name @ ''/'' @ blob_name"
    have cut: "drop 5 ?uri = bucket_name @ CHR ''/'' # blob_name" by simp
    have seg: "(blob_name = uri_filename ?uri \<or> (\<exists>dir. blob_name = dir @ ''/'' @ uri_filename ?uri)) \<and>
          CHR ''/'' \<notin> set (uri_filename ?uri)"
    proof (cases "CHR ''/'' \<in> set blob_name")
      case True
      have "uri_filename ?uri = last (rsplit1 CHR ''/'' ((''gs://'' @ bucket_name @ ''/'') @ blob_name))"
        by (simp add: uri_filename_def)
      also have "\<dots> = last (rsplit1 CHR ''/'' blob_name)"
        using True by (rule rsplit1_last_suffix)
      finally have fn: "uri_filename ?uri = last (rsplit1 CHR ''/'' blob_name)" .
      from rsplit1_last_shape[OF True] show ?thesis unfolding fn by auto
    next
      case False
      have "uri_filename ?uri = last (rsplit1 CHR ''/'' ((''gs://'' @ bucket_name) @ CHR ''/'' # blob_name))"
        by (simp add: uri_filename_def)
      also have "\<dots> = blob_name" using False by (rule rsplit1_last_cut)
      finally show ?thesis using False by simp
    qed
    have scope: "\<not> prefix ''user:'' (uri_filename ?uri) \<longrightarrow> artifact_scope (uri_filename ?uri) = SessionScope"
      by (simp add: artifact_scope_def)
    from seg scope add_artifact_cut[OF cut b, of download guess_type tc] show ?thesis
      by blast
  qed
  have "CHR ''/'' \<notin> set ''b''" by simp
  have c1: "drop 5 ''gs://b/dir/name.pdf'' = ''b'' @ CHR ''/'' # ''dir/name.pdf''" by simp
  have fn1: "uri_filename ''gs://b/dir/name.pdf'' = ''name.pdf''"
    by (simp add: uri_filename_def rsplit1_def)
  have concrete: "add_artifact_from_gcs download guess_type ''gs://b/dir/name.pdf'' tc =
     (case download ''b'' ''dir/name.pdf'' of
        Inl e \<Rightarrow> (Inl e, tc)
      | Inr file_bytes \<Rightarrow>
          (Inr (),
           tc\<lparr>artifacts := artifacts tc @
              [(''name.pdf'',
                \<lparr>part_text = None,
                 inline_data = Some \<lparr>data = file_bytes,
                    mime_type = (if guess_type ''name.pdf'' = Some ''application/json''
                                 then Some ''text/plain'' else guess_type ''name.pdf'')\<rparr>\<rparr>)]\<rparr>))"
    using add_artifact_cut[OF c1, of download guess_type tc] unfolding fn1 by simp
  have sc: "artifact_scope ''name.pdf'' = SessionScope" by (simp add: artifact_scope_def)
  from concrete sc general show ?thesis by blast
qed


theorem gcs_uri_decomposition_witness:
  "CHR ''/'' \<notin> set ''b'' \<and>
   add_artifact_from_gcs sample_download sample_guess_type ''gs://b/dir/name.pdf'' \<lparr>artifacts = []\<rparr> =
     (Inr (), \<lparr>artifacts = [(''name.pdf'',
        \<lparr>part_text = None,
         inline_data = Some \<lparr>data = ''%PDF'', mime_type = Some ''application/pdf''\<rparr>\<rparr>)]\<rparr>) \<and>
   (\<exists>filename.
      (''meta/info.json'' = filename \<or> (\<exists>dir. ''meta/info.json'' = dir @ ''/'' @ filename)) \<and>
      CHR ''/'' \<notin> set filename \<and>
      add_artifact_from_gcs sample_download sample_guess_type (''gs://'' @ ''b'' @ ''/'' @ ''meta/info.json'')
          \<lparr>artifacts = []\<rparr> =
        (Inr (), \<lparr>artifacts = [(filename,
           \<lparr>part_text = None,
            inline_data = Some \<lparr>data = ''{}'',
               mime_type = (if sample_guess_type filename = Some ''application/json''
                            then Some ''text/plain'' else sample_guess_type filename)\<rparr>\<rparr>)]\<rparr>))"
proof -
  note decomp = gcs_uri_decomposition[of sample_download sample_guess_type "\<lparr>artifacts = []\<rparr>"]
  have h: "CHR ''/'' \<notin> set ''b''" by simp
  have d1: "sample_download ''b'' ''dir/name.pdf'' = Inr ''%PDF''"
    by (simp add: sample_download_def)
  have d2: "sample_download ''b'' ''meta/info.json'' = Inr ''{}''"
    by (simp add: sample_download_def)
  have g1: "sample_guess_type ''name.pdf'' = Some ''application/pdf''"
    by (simp add: sample_guess_type_def suffix_def)
  from decomp have first: "add_artifact_from_gcs sample_download sample_guess_type ''gs://b/dir/name.pdf'' \<lparr>artifacts = []\<rparr> =
     (Inr (), \<lparr>artifacts = [(''name.pdf'',
        \<lparr>part_text = None,
         inline_data = Some \<lparr>data = ''%PDF'', mime_type = Some ''application/pdf''\<rparr>\<rparr>)]\<rparr>)"
    unfolding d1 g1 by simp
  from decomp have "\<forall>bucket_name blob_name. CHR ''/'' \<notin> set bucket_name \<longrightarrow>
      (\<exists>filename.
         (blob_name = filename \<or> (\<exists>dir. blob_name = dir @ ''/'' @ filename)) \<and>
         CHR ''/'' \<notin> set filename \<and>
         (\<not> prefix ''user:'' filename \<longrightarrow> artifact_scope filename = SessionScope) \<and>
         add_artifact_from_gcs sample_download sample_guess_type (''gs://'' @ bucket_name @ ''/'' @ blob_name) \<lparr>artifacts = []\<rparr> =
           (case sample_download bucket_name blob_name of
              Inl e \<Rightarrow> (Inl e, \<lparr>artifacts = []\<rparr>)
            | Inr file_bytes \<Rightarrow>
                (Inr (),
                 \<lparr>artifacts = []\<rparr>\<lparr>artifacts := artifacts \<lparr>artifacts = []\<rparr> @
                    [(filename,
                      \<lparr>part_text = None,
                       inline_data = Some \<lparr>data = file_bytes,
                          mime_type = (if sample_guess_type filename = Some ''application/json''
                                       then Some ''text/plain'' else sample_guess_type filename)\<rparr>\<rparr>)]\<rparr>)))"
    by (elim conjE)
  from this[rule_format, OF h, of "''meta/info.json''"] 
  have second: "\<exists>filename.
      (''meta/info.json'' = filename \<or> (\<exists>dir. ''meta/info.json'' = dir @ ''/'' @ filename)) \<and>
      CHR ''/'' \<notin> set filename \<and>
      add_artifact_from_gcs sample_download sample_guess_type (''gs://'' @ ''b'' @ ''/'' @ ''meta/info.json'')
          \<lparr>artifacts = []\<rparr> =
        (Inr (), \<lparr>artifacts = [(filename,
           \<lparr>part_text = None,
            inline_data = Some \<lparr>data = ''{}'',
               mime_type = (if sample_guess_type filename = Some ''application/json''
                            then Some ''text/plain'' else sample_guess_type filename)\<rparr>\<rparr>)]\<rparr>)"
    unfolding d2 by (elim exE conjE, intro exI conjI) (assumption, assumption, simp)
  from h first second show ?thesis by (intro conjI)
qed

section \<open>The artifact listing tool\<close>

text \<open>
  Claim C7: whatever the artifact service does, \<open>list_artifacts\<close> returns a
  sentence. For no files it is the fixed sentence; for a non-empty list of names
  (none containing a line break) the lines of the result are the heading followed
  by one line \<open>- name\<close> per file, in order; a \<open>ValueError\<close> and any other
  exception of the service each give their fixed error sentence.
\<close>

theorem list_artifacts_never_raises:
  "(\<forall>listing. \<exists>sentence. list_artifacts listing = Inr sentence) \<and>
   list_artifacts (Returned []) = Inr ''You have no saved artifacts.'' \<and>
   (\<forall>available_files. available_files \<noteq> [] \<and> (\<forall>fname\<in>set available_files. newline \<notin> set fname) \<longrightarrow>
      (\<exists>sentence. list_artifacts (Returned available_files) = Inr sentence \<and>
         str_split newline sentence =
           ''Here are your available Python artifacts:'' # map (\<lambda>fname. ''- '' @ fname) available_files)) \<and>
   (\<exists>sentence. list_artifacts (Returned [''a.pdf'', ''b.png'']) = Inr sentence \<and>
      str_split newline sentence =
        [''Here are your available Python artifacts:'', ''- a.pdf'', ''- b.png'']) \<and>
   (\<forall>e. list_artifacts (Raised (ValueError e)) = Inr ''Error: Could not list Python artifacts.'') \<and>
   (\<forall>e. list_artifacts (Raised (OtherException e)) =
      Inr ''Error: An unexpected error occurred while listing Python artifacts.'')"
proof -
  have total: "\<exists>sentence. list_artifacts listing = Inr sentence" for listing
  proof (cases listing)
    case (Returned available_files)
    then show ?thesis by (simp add: list_artifacts_def)
  next
    case (Raised e)
    then show ?thesis by (cases e) (simp_all add: list_artifacts_def)
  qed
  have empty: "list_artifacts (Returned []) = Inr ''You have no saved artifacts.''"
    by (simp add: list_artifacts_def)
  have lines: "\<exists>sentence. list_artifacts (Returned available_files) = Inr sentence \<and>
         str_split newline sentence =
           ''Here are your available Python artifacts:'' # map (\<lambda>fname. ''- '' @ fname) available_files"
    if ne: "available_files \<noteq> []" and nl: "\<forall>fname\<in>set available_files. newline \<notin> set fname"
    for available_files
  proof -
    let ?rows = "map (\<lambda>fname. ''- '' @ fname) available_files"
    have rows_ne: "?rows \<noteq> []" using ne by simp
    have rows_nl: "\<forall>x\<in>set ?rows. newline \<notin> set x"
      using nl by (auto simp: newline_def)
    have "str_split newline (''Here are your available Python artifacts:'' @ newline # str_join [newline] ?rows)
          = ''Here are your available Python artifacts:'' # str_split newline (str_join [newline] ?rows)"
      using header_no_newline by (rule str_split_cut)
    also have "str_split newline (str_join [newline] ?rows) = ?rows"
      using rows_ne rows_nl by (rule str_split_join)
    finally have cut: "str_split newline
        (''Here are your available Python artifacts:'' @ newline # str_join [newline] ?rows)
          = ''Here are your available Python artifacts:'' # ?rows" .
    have run: "list_artifacts (Returned available_files) =
        Inr (''Here are your available Python artifacts:'' @ newline # str_join [newline] ?rows)"
    proof -
      have sing: "[newline] @ rest = newline # rest" for rest :: string
        by simp
      show ?thesis
        unfolding list_artifacts_def using ne
        by (simp only: outcome.case if_False sing)
    qed
    show ?thesis by (intro exI conjI) (rule run, rule cut)
  qed
  have two: "\<exists>sentence. list_artifacts (Returned [''a.pdf'', ''b.png'']) = Inr sentence \<and>
      str_split newline sentence =
        [''Here are your available Python artifacts:'', ''- a.pdf'', ''- b.png'']"
    using lines[of "[''a.pdf'', ''b.png'']"] by (simp add: newline_def)
  have ve: "list_artifacts (Raised (ValueError e)) = Inr ''Error: Could not list Python artifacts.''" for e
    by (simp add: list_artifacts_def)
  have oe: "list_artifacts (Raised (OtherException e)) =
      Inr ''Error: An unexpected error occurred while listing Python artifacts.''" for e
    by (simp add: list_artifacts_def)
  from total empty lines two ve oe show ?thesis by blast
qed

theorem list_artifacts_never_raises_witness:
  "[''video.mp4''] \<noteq> [] \<and> newline \<notin> set ''video.mp4'' \<and>
   (\<exists>sentence. list_artifacts (Returned [''video.mp4'']) = Inr sentence \<and>
      str_split newline sentence = [''Here are your available Python artifacts:'', ''- video.mp4''])"
proof -
  have h: "[''video.mp4''] \<noteq> [] \<and> (\<forall>fname\<in>set [''video.mp4'']. newline \<notin> set fname)"
    by (simp add: newline_def)
  from list_artifacts_never_raises have "\<forall>available_files. available_files \<noteq> [] \<and> (\<forall>fname\<in>set available_files. newline \<notin> set fname) \<longrightarrow>
      (\<exists>sentence. list_artifacts (Returned available_files) = Inr sentence \<and>
         str_split newline sentence =
           ''Here are your available Python artifacts:'' # map (\<lambda>fname. ''- '' @ fname) available_files)"
    by (elim conjE)
  from this[rule_format, OF h] h show ?thesis by simp
qed

section \<open>The BigQuery toolset\<close>

text \<open>
  Claim C1: the write mode handed to the toolset of the ingestion agent. The
  comment above \<open>tool_config\<close> announces a configuration that blocks write
  operations; the value passed is \<open>ALLOWED\<close>, the mode that permits every write.
\<close>

theorem toolset_write_mode_is_allowed:
  "write_mode (bigquery_tool_config bigquery_toolset) = ALLOWED \<and>
   write_mode (bigquery_tool_config bigquery_toolset) \<noteq> BLOCKED \<and>
   write_mode (bigquery_tool_config bigquery_toolset) \<noteq> PROTECTED"
  by (simp add: bigquery_toolset_def tool_config_def)

section \<open>The enqueue handler\<close>

text \<open>
  Claim C3: when the queue client accepts the task, \<open>gcs_trigger\<close> answers 204
  with an empty body; when the client raises, it answers 500, the detail is
  \<open>Failed to create task:\<close> followed by the text of the exception, and the
  process state is as before.
\<close>

theorem gcs_trigger_responses:
  "(create_task (queue_path (PROJECT_ID cfg) (LOCATION_ID cfg) (QUEUE_ID cfg))
        (gcs_trigger_task cfg event) = None \<longrightarrow>
      fst (gcs_trigger cfg create_task event w) = Response 204 []) \<and>
   (\<forall>e. create_task (queue_path (PROJECT_ID cfg) (LOCATION_ID cfg) (QUEUE_ID cfg))
        (gcs_trigger_task cfg event) = Some e \<longrightarrow>
      fst (gcs_trigger cfg create_task event w) =
        HTTPException 500 (''Failed to create task: '' @ str_exn e) \<and>
      status_code (fst (gcs_trigger cfg create_task event w)) = 500 \<and>
      snd (gcs_trigger cfg create_task event w) = w)"
  by (simp add: gcs_trigger_def Let_def)

theorem gcs_trigger_responses_witness:
  "fst (gcs_trigger sample_config queue_accepts sample_event empty_world) = Response 204 [] \<and>
   fst (gcs_trigger sample_config queue_unavailable sample_event empty_world) =
     HTTPException 500 ''Failed to create task: 503 unavailable''"
  using gcs_trigger_responses [of queue_accepts sample_config sample_event empty_world]
    gcs_trigger_responses [of queue_unavailable sample_config sample_event empty_world]
  by (simp add: queue_accepts_def queue_unavailable_def)

text \<open>
  Claim C4: the task that \<open>gcs_trigger\<close> builds for an event has method POST, the
  url made of the service url and \<open>/process-asset\<close>, an OIDC audience equal to that
  url, the one header \<open>Content-type: application/json\<close>, the JSON text of the
  event as body and the dispatch deadline \<open>1800s\<close>; and it is this task, under the
  configured queue path, that a successful call adds to the queue.
\<close>

theorem gcs_trigger_task_descriptor:
  "http_method (http_request (gcs_trigger_task cfg event)) = POST \<and>
   url (http_request (gcs_trigger_task cfg event)) = fstr (SERVICE_URL cfg) @ ''/process-asset'' \<and>
   audience (oidc_token (http_request (gcs_trigger_task cfg event))) =
     url (http_request (gcs_trigger_task cfg event)) \<and>
   headers (http_request (gcs_trigger_task cfg event)) = [(''Content-type'', ''application/json'')] \<and>
   body (http_request (gcs_trigger_task cfg event)) = model_dump_json event \<and>
   dispatch_deadline (gcs_trigger_task cfg event) = ''1800s'' \<and>
   (create_task (queue_path (PROJECT_ID cfg) (LOCATION_ID cfg) (QUEUE_ID cfg))
        (gcs_trigger_task cfg event) = None \<longrightarrow>
      tasks (snd (gcs_trigger cfg create_task event w)) =
        tasks w @ [(queue_path (PROJECT_ID cfg) (LOCATION_ID cfg) (QUEUE_ID cfg),
                    gcs_trigger_task cfg event)])"
  by (simp add: gcs_trigger_def gcs_trigger_task_def Let_def)

theorem gcs_trigger_task_descriptor_witness:
  "tasks (snd (gcs_trigger sample_config queue_accepts sample_event empty_world)) =
     [(''projects/p/locations/us-central1/queues/q'',
       \<lparr>http_request =
          \<lparr>http_method = POST,
           url = ''https://svc.example/process-asset'',
           oidc_token = \<lparr>service_account_email = ''sa@p.example'',
                         audience = ''https://svc.example/process-asset''\<rparr>,
           headers = [(''Content-type'', ''application/json'')],
           body = ''{'' @ [dquote] @ ''bucket'' @ [dquote] @ '':'' @ [dquote] @ ''b1'' @ [dquote] @
                  '','' @ [dquote] @ ''name'' @ [dquote] @ '':'' @ [dquote] @ ''video.mp4'' @
                  [dquote] @ ''}''\<rparr>,
        dispatch_deadline = ''1800s''\<rparr>)]"
proof -
  have ok: "queue_accepts (queue_path (PROJECT_ID sample_config) (LOCATION_ID sample_config)
       (QUEUE_ID sample_config)) (gcs_trigger_task sample_config sample_event) = None"
    by (simp add: queue_accepts_def)
  have task: "gcs_trigger_task sample_config sample_event =
       \<lparr>http_request =
          \<lparr>http_method = POST,
           url = ''https://svc.example/process-asset'',
           oidc_token = \<lparr>service_account_email = ''sa@p.example'',
                         audience = ''https://svc.example/process-asset''\<rparr>,
           headers = [(''Content-type'', ''application/json'')],
           body = ''{'' @ [dquote] @ ''bucket'' @ [dquote] @ '':'' @ [dquote] @ ''b1'' @ [dquote] @
                  '','' @ [dquote] @ ''name'' @ [dquote] @ '':'' @ [dquote] @ ''video.mp4'' @
                  [dquote] @ ''}''\<rparr>,
        dispatch_deadline = ''1800s''\<rparr>"
    by (simp add: gcs_trigger_task_def sample_config_def sample_event_def fstr_def
        model_dump_json_def json_string_def json_escape_char_def dquote_def backslash_def)
  have path: "queue_path (PROJECT_ID sample_config) (LOCATION_ID sample_config)
       (QUEUE_ID sample_config) = ''projects/p/locations/us-central1/queues/q''"
    by (simp add: queue_path_def sample_config_def fstr_def)
  from gcs_trigger_task_descriptor [of sample_config sample_event queue_accepts empty_world] ok
  have "tasks (snd (gcs_trigger sample_config queue_accepts sample_event empty_world)) =
        tasks empty_world @ [(queue_path (PROJECT_ID sample_config) (LOCATION_ID sample_config)
       (QUEUE_ID sample_config), gcs_trigger_task sample_config sample_event)]"
    by blast
  then show ?thesis unfolding task path by (simp add: empty_world_def)
qed

section \<open>The worker handler\<close>













lemma consume_no_final:
  "\<forall>item\<in>set stream. \<exists>ev. item = Yield ev \<and> \<not> is_final_response ev \<Longrightarrow>
   consume stream t = Inr t"
proof (induction stream)
  case Nil
  then show ?case by simp
next
  case (Cons item stream)
  then obtain ev where "item = Yield ev" and "\<not> is_final_response ev" by auto
  with Cons show ?case by simp
qed

lemma consume_first_final:
  "\<forall>item\<in>set before. \<exists>ev. item = Yield ev \<and> \<not> is_final_response ev \<Longrightarrow>
   is_final_response event \<Longrightarrow>
   consume (before @ Yield event # rest) t = Inr (final_text event t)"
proof (induction before)
  case Nil
  then show ?case by simp
next
  case (Cons item before)
  then obtain ev where "item = Yield ev" and "\<not> is_final_response ev" by auto
  with Cons show ?case by simp
qed

lemma final_text_bare:
  "\<not> has_parts event \<Longrightarrow> \<not> escalated event \<Longrightarrow> final_text event t = t"
  by (auto simp: final_text_def has_parts_def escalated_def
      split: option.splits list.splits)

lemma final_text_escalated:
  "\<not> has_parts event \<Longrightarrow> escalated event \<Longrightarrow>
   final_text event t =
     Some (''Agent escalated: '' @
           (case error_message event of
              None \<Rightarrow> ''No specific message.''
            | Some m \<Rightarrow> if m = [] then ''No specific message.'' else m))"
  by (auto simp: final_text_def has_parts_def escalated_def
      split: option.splits list.splits)

lemma process_asset_response:
  "trigger_session uuid4 \<notin> set (sessions w) \<Longrightarrow>
   consume (run_async ''gcs_trigger_user'' uuid4 (new_message (model_dump_json event)))
      (Some ''Agent did not produce a final response.'') = Inr t \<Longrightarrow>
   fst (process_asset run_async uuid4 event w) =
     JSONResponse 200 [(''status'', Some ''success''), (''response'', t)]"
  by (simp add: process_asset_def create_session_def trigger_session_def Let_def)

text \<open>
  Claim C9: once the session of the invocation has been created, the handler
  answers 200 with status \<open>success\<close> and the default sentence when the runner's
  stream ends with no final response, and when the first final response has
  neither a content part nor an escalation; when that event escalates without
  content, the answer is 200 with status \<open>success\<close> and the synthesized escalation
  message. In none of the three cases has the workflow run to its end.
\<close>

theorem process_asset_success_without_completion:
  "trigger_session uuid4 \<notin> set (sessions w) \<longrightarrow>
   ((\<forall>item\<in>set (run_async ''gcs_trigger_user'' uuid4 (new_message (model_dump_json event))).
        \<exists>ev. item = Yield ev \<and> \<not> is_final_response ev) \<longrightarrow>
      fst (process_asset run_async uuid4 event w) =
        JSONResponse 200 [(''status'', Some ''success''),
                          (''response'', Some ''Agent did not produce a final response.'')]) \<and>
   (run_async ''gcs_trigger_user'' uuid4 (new_message (model_dump_json event)) =
        before @ Yield final # rest \<and>
    (\<forall>item\<in>set before. \<exists>ev. item = Yield ev \<and> \<not> is_final_response ev) \<and>
    is_final_response final \<and> \<not> has_parts final \<longrightarrow>
      (\<not> escalated final \<longrightarrow>
         fst (process_asset run_async uuid4 event w) =
           JSONResponse 200 [(''status'', Some ''success''),
                             (''response'', Some ''Agent did not produce a final response.'')]) \<and>
      (escalated final \<longrightarrow>
         fst (process_asset run_async uuid4 event w) =
           JSONResponse 200 [(''status'', Some ''success''),
                             (''response'',
                              Some (''Agent escalated: '' @
                                (case error_message final of
                                   None \<Rightarrow> ''No specific message.''
                                 | Some m \<Rightarrow> if m = [] then ''No specific message.'' else m)))]))"
proof (intro conjI impI)
  assume new: "trigger_session uuid4 \<notin> set (sessions w)"
  assume "\<forall>item\<in>set (run_async ''gcs_trigger_user'' uuid4 (new_message (model_dump_json event))).
        \<exists>ev. item = Yield ev \<and> \<not> is_final_response ev"
  then have "consume (run_async ''gcs_trigger_user'' uuid4 (new_message (model_dump_json event)))
      (Some ''Agent did not produce a final response.'') =
      Inr (Some ''Agent did not produce a final response.'')"
    by (rule consume_no_final)
  with new show "fst (process_asset run_async uuid4 event w) =
        JSONResponse 200 [(''status'', Some ''success''),
                          (''response'', Some ''Agent did not produce a final response.'')]"
    by (rule process_asset_response)
next
  assume new: "trigger_session uuid4 \<notin> set (sessions w)"
  assume h: "run_async ''gcs_trigger_user'' uuid4 (new_message (model_dump_json event)) =
        before @ Yield final # rest \<and>
    (\<forall>item\<in>set before. \<exists>ev. item = Yield ev \<and> \<not> is_final_response ev) \<and>
    is_final_response final \<and> \<not> has_parts final"
    and ne: "\<not> escalated final"
  from h have "consume (run_async ''gcs_trigger_user'' uuid4 (new_message (model_dump_json event)))
      (Some ''Agent did not produce a final response.'') =
      Inr (final_text final (Some ''Agent did not produce a final response.''))"
    by (simp add: consume_first_final)
  also have "final_text final (Some ''Agent did not produce a final response.'') =
      Some ''Agent did not produce a final response.''"
    using h ne by (simp add: final_text_bare)
  finally have "consume (run_async ''gcs_trigger_user'' uuid4 (new_message (model_dump_json event)))
      (Some ''Agent did not produce a final response.'') =
      Inr (Some ''Agent did not produce a final response.'')" .
  with new show "fst (process_asset run_async uuid4 event w) =
        JSONResponse 200 [(''status'', Some ''success''),
                          (''response'', Some ''Agent did not produce a final response.'')]"
    by (rule process_asset_response)
next
  assume new: "trigger_session uuid4 \<notin> set (sessions w)"
  assume h: "run_async ''gcs_trigger_user'' uuid4 (new_message (model_dump_json event)) =
        before @ Yield final # rest \<and>
    (\<forall>item\<in>set before. \<exists>ev. item = Yield ev \<and> \<not> is_final_response ev) \<and>
    is_final_response final \<and> \<not> has_parts final"
    and e: "escalated final"
  from h have "consume (run_async ''gcs_trigger_user'' uuid4 (new_message (model_dump_json event)))
      (Some ''Agent did not produce a final response.'') =
      Inr (final_text final (Some ''Agent did not produce a final response.''))"
    by (simp add: consume_first_final)
  also have "final_text final (Some ''Agent did not produce a final response.'') =
      Some (''Agent escalated: '' @
           (case error_message final of
              None \<Rightarrow> ''No specific message.''
            | Some m \<Rightarrow> if m = [] then ''No specific message.'' else m))"
    using h e by (simp add: final_text_escalated)
  finally have "consume (run_async ''gcs_trigger_user'' uuid4 (new_message (model_dump_json event)))
      (Some ''Agent did not produce a final response.'') =
      Inr (Some (''Agent escalated: '' @
           (case error_message final of
              None \<Rightarrow> ''No specific message.''
            | Some m \<Rightarrow> if m = [] then ''No specific message.'' else m)))" .
  with new show "fst (process_asset run_async uuid4 event w) =
           JSONResponse 200 [(''status'', Some ''success''),
                             (''response'',
                              Some (''Agent escalated: '' @
                                (case error_message final of
                                   None \<Rightarrow> ''No specific message.''
                                 | Some m \<Rightarrow> if m = [] then ''No specific message.'' else m)))]"
    by (rule process_asset_response)
qed


theorem process_asset_success_without_completion_witness:
  "trigger_session ''id-1'' \<notin> set (sessions empty_world) \<and>
   fst (process_asset runner_without_final ''id-1'' sample_event empty_world) =
     JSONResponse 200 [(''status'', Some ''success''),
                       (''response'', Some ''Agent did not produce a final response.'')] \<and>
   fst (process_asset runner_bare_final ''id-1'' sample_event empty_world) =
     JSONResponse 200 [(''status'', Some ''success''),
                       (''response'', Some ''Agent did not produce a final response.'')] \<and>
   fst (process_asset runner_escalating ''id-1'' sample_event empty_world) =
     JSONResponse 200 [(''status'', Some ''success''),
                       (''response'', Some ''Agent escalated: quota exceeded'')]"
proof -
  have new: "trigger_session ''id-1'' \<notin> set (sessions empty_world)"
    by (simp add: empty_world_def)
  have p: "\<not> is_final_response progress_event"
    by (simp add: progress_event_def)
  have a: "\<forall>item\<in>set (runner_without_final ''gcs_trigger_user'' ''id-1''
                (new_message (model_dump_json sample_event))).
        \<exists>ev. item = Yield ev \<and> \<not> is_final_response ev"
    using p by (simp add: runner_without_final_def)
  have before: "\<forall>item\<in>set [Yield progress_event]. \<exists>ev. item = Yield ev \<and> \<not> is_final_response ev"
    using p by simp
  have b: "runner_bare_final ''gcs_trigger_user'' ''id-1'' (new_message (model_dump_json sample_event)) =
        [Yield progress_event] @ Yield bare_final_event # [] \<and>
    (\<forall>item\<in>set [Yield progress_event]. \<exists>ev. item = Yield ev \<and> \<not> is_final_response ev) \<and>
    is_final_response bare_final_event \<and> \<not> has_parts bare_final_event"
    using before by (simp add: runner_bare_final_def bare_final_event_def has_parts_def)
  have b': "\<not> escalated bare_final_event"
    by (simp add: bare_final_event_def escalated_def)
  have c: "runner_escalating ''gcs_trigger_user'' ''id-1'' (new_message (model_dump_json sample_event)) =
        [Yield progress_event] @ Yield escalation_event # [] \<and>
    (\<forall>item\<in>set [Yield progress_event]. \<exists>ev. item = Yield ev \<and> \<not> is_final_response ev) \<and>
    is_final_response escalation_event \<and> \<not> has_parts escalation_event"
    using before by (simp add: runner_escalating_def escalation_event_def has_parts_def)
  have c': "escalated escalation_event"
    by (simp add: escalation_event_def escalated_def)
  have m: "(case error_message escalation_event of
              None \<Rightarrow> ''No specific message.''
            | Some m \<Rightarrow> if m = [] then ''No specific message.'' else m) = ''quota exceeded''"
    by (simp add: escalation_event_def)
  from process_asset_success_without_completion
    [where run_async = runner_without_final and ?uuid4.0 = "''id-1''" and event = sample_event and
      w = empty_world] new a
  have r1: "fst (process_asset runner_without_final ''id-1'' sample_event empty_world) =
     JSONResponse 200 [(''status'', Some ''success''),
                       (''response'', Some ''Agent did not produce a final response.'')]"
    by blast
  from process_asset_success_without_completion
    [where run_async = runner_bare_final and ?uuid4.0 = "''id-1''" and event = sample_event and
      before = "[Yield progress_event]" and final = bare_final_event and rest = "[]" and
      w = empty_world]
    new b b'
  have r2: "fst (process_asset runner_bare_final ''id-1'' sample_event empty_world) =
     JSONResponse 200 [(''status'', Some ''success''),
                       (''response'', Some ''Agent did not produce a final response.'')]"
    by blast
  from process_asset_success_without_completion
    [where run_async = runner_escalating and ?uuid4.0 = "''id-1''" and event = sample_event and
      before = "[Yield progress_event]" and final = escalation_event and rest = "[]" and
      w = empty_world]
    new c c'
  have "fst (process_asset runner_escalating ''id-1'' sample_event empty_world) =
     JSONResponse 200 [(''status'', Some ''success''),
        (''response'', Some (''Agent escalated: '' @
           (case error_message escalation_event of
              None \<Rightarrow> ''No specific message.''
            | Some m \<Rightarrow> if m = [] then ''No specific message.'' else m)))]"
    by blast
  then have r3: "fst (process_asset runner_escalating ''id-1'' sample_event empty_world) =
     JSONResponse 200 [(''status'', Some ''success''),
                       (''response'', Some ''Agent escalated: quota exceeded'')]"
    unfolding m by simp
  from new r1 r2 r3 show ?thesis by (intro conjI)
qed

section \<open>Request validation\<close>

lemma validate_needs_both:
  "(\<forall>b. json_field request_body ''bucket'' \<noteq> Some (JString b)) \<or>
   (\<forall>n. json_field request_body ''name'' \<noteq> Some (JString n)) \<Longrightarrow>
   validate_GcsEvent request_body = None"
  by (auto simp: validate_GcsEvent_def split: option.splits json.splits)

text \<open>
  Claim C10: a request to either route whose body has no string field \<open>bucket\<close>
  or no string field \<open>name\<close> is refused before the handler runs: no task is
  queued, no session is created, the process state is unchanged. A body with both
  fields reaches the handler with the event they make.
\<close>

theorem invalid_body_changes_nothing:
  "((\<forall>b. json_field request_body ''bucket'' \<noteq> Some (JString b)) \<or>
    (\<forall>n. json_field request_body ''name'' \<noteq> Some (JString n)) \<longrightarrow>
      post_gcs_trigger cfg create_task request_body w = (RequestValidationError, w) \<and>
      post_process_asset run_async uuid4 request_body w = (RequestValidationError, w)) \<and>
   (json_field request_body ''bucket'' = Some (JString b) \<and>
    json_field request_body ''name'' = Some (JString n) \<longrightarrow>
      post_gcs_trigger cfg create_task request_body w =
        gcs_trigger cfg create_task \<lparr>bucket = b, name = n\<rparr> w \<and>
      post_process_asset run_async uuid4 request_body w =
        process_asset run_async uuid4 \<lparr>bucket = b, name = n\<rparr> w)"
proof (intro conjI impI)
  assume "(\<forall>b. json_field request_body ''bucket'' \<noteq> Some (JString b)) \<or>
   (\<forall>n. json_field request_body ''name'' \<noteq> Some (JString n))"
  then have none: "validate_GcsEvent request_body = None"
    by (rule validate_needs_both)
  from none show "post_gcs_trigger cfg create_task request_body w = (RequestValidationError, w)"
    by (simp add: post_gcs_trigger_def)
  from none show "post_process_asset run_async uuid4 request_body w = (RequestValidationError, w)"
    by (simp add: post_process_asset_def)
next
  assume "json_field request_body ''bucket'' = Some (JString b) \<and>
    json_field request_body ''name'' = Some (JString n)"
  then have some: "validate_GcsEvent request_body = Some \<lparr>bucket = b, name = n\<rparr>"
    by (simp add: validate_GcsEvent_def)
  from some show "post_gcs_trigger cfg create_task request_body w =
        gcs_trigger cfg create_task \<lparr>bucket = b, name = n\<rparr> w"
    by (simp add: post_gcs_trigger_def)
  from some show "post_process_asset run_async uuid4 request_body w =
        process_asset run_async uuid4 \<lparr>bucket = b, name = n\<rparr> w"
    by (simp add: post_process_asset_def)
qed

theorem invalid_body_changes_nothing_witness:
  "json_field (JObject [(''bucket'', JString ''b1'')]) ''name'' = None \<and>
   post_gcs_trigger sample_config queue_accepts (JObject [(''bucket'', JString ''b1'')]) empty_world =
     (RequestValidationError, empty_world) \<and>
   post_process_asset runner_bare_final ''id-1'' (JObject [(''bucket'', JString ''b1'')]) empty_world =
     (RequestValidationError, empty_world) \<and>
   json_field (JObject [(''bucket'', JNumber 7), (''name'', JString ''video.mp4'')]) ''bucket'' =
     Some (JNumber 7) \<and>
   post_gcs_trigger sample_config queue_accepts
       (JObject [(''bucket'', JNumber 7), (''name'', JString ''video.mp4'')]) empty_world =
     (RequestValidationError, empty_world) \<and>
   post_gcs_trigger sample_config queue_accepts
       (JObject [(''bucket'', JString ''b1''), (''name'', JString ''video.mp4'')]) empty_world =
     gcs_trigger sample_config queue_accepts sample_event empty_world"
proof -
  let ?no_name = "JObject [(''bucket'', JString ''b1'')]"
  let ?number = "JObject [(''bucket'', JNumber 7), (''name'', JString ''video.mp4'')]"
  let ?valid = "JObject [(''bucket'', JString ''b1''), (''name'', JString ''video.mp4'')]"
  have f1: "json_field ?no_name ''name'' = None"
    by (simp add: json_field_def)
  have f2: "json_field ?number ''bucket'' = Some (JNumber 7)"
    by (simp add: json_field_def)
  have f3: "json_field ?valid ''bucket'' = Some (JString ''b1'') \<and>
    json_field ?valid ''name'' = Some (JString ''video.mp4'')"
    by (simp add: json_field_def)
  have h1: "(\<forall>b. json_field ?no_name ''bucket'' \<noteq> Some (JString b)) \<or>
    (\<forall>n. json_field ?no_name ''name'' \<noteq> Some (JString n))"
    using f1 by simp
  have h2: "(\<forall>b. json_field ?number ''bucket'' \<noteq> Some (JString b)) \<or>
    (\<forall>n. json_field ?number ''name'' \<noteq> Some (JString n))"
    using f2 by simp
  from invalid_body_changes_nothing
    [where request_body = ?no_name and cfg = sample_config and create_task = queue_accepts and
      w = empty_world and run_async = runner_bare_final and ?uuid4.0 = "''id-1''"] h1
  have r1: "post_gcs_trigger sample_config queue_accepts ?no_name empty_world =
       (RequestValidationError, empty_world) \<and>
     post_process_asset runner_bare_final ''id-1'' ?no_name empty_world =
       (RequestValidationError, empty_world)"
    by blast
  from invalid_body_changes_nothing
    [where request_body = ?number and cfg = sample_config and create_task = queue_accepts and
      w = empty_world and run_async = runner_bare_final and ?uuid4.0 = "''id-1''"] h2
  have r2: "post_gcs_trigger sample_config queue_accepts ?number empty_world =
       (RequestValidationError, empty_world)"
    by blast
  from invalid_body_changes_nothing
    [where request_body = ?valid and cfg = sample_config and create_task = queue_accepts and
      w = empty_world and run_async = runner_bare_final and ?uuid4.0 = "''id-1''" and
      b = "''b1''" and n = "''video.mp4''"] f3
  have "post_gcs_trigger sample_config queue_accepts ?valid empty_world =
       gcs_trigger sample_config queue_accepts \<lparr>bucket = ''b1'', name = ''video.mp4''\<rparr> empty_world"
    by blast
  then have r3: "post_gcs_trigger sample_config queue_accepts ?valid empty_world =
       gcs_trigger sample_config queue_accepts sample_event empty_world"
    by (simp add: sample_event_def)
  from f1 r1 f2 r2 r3 show ?thesis by (intro conjI) blast+
qed

end
